theory Spec2Isabelle
  imports Main "HOL-Library.Word" "HOL-Library.Monad_Syntax"
begin

section \<open>Strings and regular expressions\<close>

text \<open>
  A JavaScript string is a sequence of UTF-16 code units, and every length and offset of
  the source counts code units. \<open>js\<close> and \<open>cu\<close> write a string or a character of the
  source as code units.
\<close>

type_synonym jschar = "16 word"
type_synonym jsstring = "jschar list"

definition cu :: "char \<Rightarrow> jschar" where
  "cu c = of_char c"

definition js :: "string \<Rightarrow> jsstring" where
  "js s = map cu s"

text \<open>
  The regular expressions of the two tables use literal characters, the classes \<open>.\<close>,
  \<open>\s\<close>, \<open>[0-9]\<close> and \<open>[^c]\<close>, the greedy \<open>+\<close> on a class, \<open>^\<close>, \<open>$\<close>,
  alternation and capturing groups. They carry no flag, so \<open>^\<close> and \<open>$\<close> match at the two
  ends of the input only, and \<open>.\<close> matches every code unit but a line terminator.
\<close>

datatype cls = Dot | Space | Digit | Except jschar

fun in_cls :: "cls \<Rightarrow> jschar \<Rightarrow> bool" where
  "in_cls Dot c = (c \<noteq> 0x0A \<and> c \<noteq> 0x0D \<and> c \<noteq> 0x2028 \<and> c \<noteq> 0x2029)"
| "in_cls Space c =
     (c = 0x09 \<or> c = 0x0A \<or> c = 0x0B \<or> c = 0x0C \<or> c = 0x0D \<or> c = 0x20 \<or> c = 0xA0
      \<or> c = 0x1680 \<or> (0x2000 \<le> c \<and> c \<le> 0x200A) \<or> c = 0x2028 \<or> c = 0x2029
      \<or> c = 0x202F \<or> c = 0x205F \<or> c = 0x3000 \<or> c = 0xFEFF)"
| "in_cls Digit c = (0x30 \<le> c \<and> c \<le> 0x39)"
| "in_cls (Except d) c = (c \<noteq> d)"

datatype rx =
    Eps
  | Chr jschar
  | One cls
  | Many1 cls
  | Bol
  | Eol
  | Seq rx rx
  | Alt rx rx
  | Group rx

fun seq :: "rx list \<Rightarrow> rx" where
  "seq [] = Eps"
| "seq (r # rs) = Seq r (seq rs)"

definition lit :: "string \<Rightarrow> rx" where
  "lit s = seq (map (\<lambda>c. Chr (cu c)) s)"

text \<open>
  The matcher backtracks as the JavaScript engine does: it is given the position, the rest
  of the input, the groups captured so far and a continuation; the first alternative is
  tried first, and \<open>C+\<close> takes as many code units as it can before it gives one back.
\<close>

fun many1 :: "cls \<Rightarrow> nat \<Rightarrow> jsstring \<Rightarrow> (nat \<Rightarrow> jsstring \<Rightarrow> 'r option) \<Rightarrow> 'r option" where
  "many1 C i [] k = None"
| "many1 C i (c # cs) k =
     (if in_cls C c
      then (case many1 C (Suc i) cs k of Some r \<Rightarrow> Some r | None \<Rightarrow> k (Suc i) cs)
      else None)"

fun rmatch :: "rx \<Rightarrow> nat \<Rightarrow> jsstring \<Rightarrow> jsstring list \<Rightarrow>
    (nat \<Rightarrow> jsstring \<Rightarrow> jsstring list \<Rightarrow> 'r option) \<Rightarrow> 'r option" where
  "rmatch Eps i s g k = k i s g"
| "rmatch (Chr d) i s g k =
     (case s of [] \<Rightarrow> None | c # cs \<Rightarrow> if c = d then k (Suc i) cs g else None)"
| "rmatch (One C) i s g k =
     (case s of [] \<Rightarrow> None | c # cs \<Rightarrow> if in_cls C c then k (Suc i) cs g else None)"
| "rmatch (Many1 C) i s g k = many1 C i s (\<lambda>j t. k j t g)"
| "rmatch Bol i s g k = (if i = 0 then k i s g else None)"
| "rmatch Eol i s g k = (if s = [] then k i s g else None)"
| "rmatch (Seq a b) i s g k = rmatch a i s g (\<lambda>j t h. rmatch b j t h k)"
| "rmatch (Alt a b) i s g k =
     (case rmatch a i s g k of Some r \<Rightarrow> Some r | None \<Rightarrow> rmatch b i s g k)"
| "rmatch (Group a) i s g k = rmatch a i s g (\<lambda>j t h. k j t (h @ [take (j - i) s]))"

definition match_here :: "rx \<Rightarrow> nat \<Rightarrow> jsstring \<Rightarrow> jsstring list option" where
  "match_here r i s = rmatch r i s [] (\<lambda>j t g. Some g)"

text \<open>
  \<open>String.prototype.match\<close> with a regular expression without the \<open>g\<close> flag: the match
  that starts leftmost, as the list of its captured groups (the array of the source,
  without its element 0), or \<open>None\<close> for \<open>null\<close>.
\<close>

fun search :: "rx \<Rightarrow> nat \<Rightarrow> jsstring \<Rightarrow> jsstring list option" where
  "search r i [] = match_here r i []"
| "search r i (c # cs) =
     (case match_here r i (c # cs) of Some g \<Rightarrow> Some g | None \<Rightarrow> search r (Suc i) cs)"

definition js_match :: "jsstring \<Rightarrow> rx \<Rightarrow> jsstring list option" where
  "js_match s r = search r 0 s"

section \<open>The shortcut tables\<close>

record block_shortcut =
  bmatch :: rx
  btype :: string
  listType :: "string option"

definition BLOCK_SHORTCUTS :: "block_shortcut list" where
  "BLOCK_SHORTCUTS =
    [\<lparr>bmatch = seq [Bol, Group (Alt (lit ''*'') (Alt (lit ''-'') (lit ''+''))), Eol],
      btype = ''list-item'', listType = Some ''bulleted-list''\<rparr>,
     \<lparr>bmatch = seq [Bol, Group (seq [Many1 Digit, lit ''.'']), Eol],
      btype = ''list-item'', listType = Some ''numbered-list''\<rparr>,
     \<lparr>bmatch = seq [Bol, lit ''>'', Eol], btype = ''block-quote'', listType = None\<rparr>,
     \<lparr>bmatch = seq [Bol, lit ''#'', Eol], btype = ''heading-one'', listType = None\<rparr>,
     \<lparr>bmatch = seq [Bol, lit ''##'', Eol], btype = ''heading-two'', listType = None\<rparr>,
     \<lparr>bmatch = seq [Bol, lit ''###'', Eol], btype = ''heading-three'', listType = None\<rparr>]"

record inline_shortcut =
  imatch :: rx
  itype :: string

definition INLINE_SHORTCUTS :: "inline_shortcut list" where
  "INLINE_SHORTCUTS =
    [\<lparr>imatch = seq [Alt Bol (One Space), Group (lit ''**''),
        Group (Many1 (Except (cu CHR ''*''))), Group (lit ''**'')], itype = ''bold''\<rparr>,
     \<lparr>imatch = seq [Alt Bol (One Space), Group (lit ''__''),
        Group (Many1 (Except (cu CHR ''_''))), Group (lit ''__'')], itype = ''bold''\<rparr>,
     \<lparr>imatch = seq [Alt Bol (One Space), Group (lit ''*''),
        Group (Many1 (Except (cu CHR ''*''))), Group (lit ''*'')], itype = ''italic''\<rparr>,
     \<lparr>imatch = seq [Alt Bol (One Space), Group (lit ''_''),
        Group (Many1 (Except (cu CHR ''_''))), Group (lit ''_'')], itype = ''italic''\<rparr>,
     \<lparr>imatch = seq [Alt Bol (One Space), Group (lit ''`''),
        Group (Many1 Dot), Group (lit ''`'')], itype = ''code''\<rparr>,
     \<lparr>imatch = seq [Alt Bol (One Space), Group (lit ''[''), Group (Many1 Dot),
        Group (lit ''](''), Group (Many1 Dot), Group (lit '')'')], itype = ''link''\<rparr>]"

section \<open>The document and the host editor\<close>

text \<open>
  The document of the specification: the root is a sequence of blocks; a block has a type
  and holds either inline nodes or nested blocks (a list container); an inline node is a
  text run with its marks (the keys set to \<open>true\<close> on the run) or a link with a url and
  inline children. A position is a path to a text run and an offset in code units.
\<close>

datatype inline = Text jsstring "string set" | Link jsstring "inline list"

datatype block = Block string "inline list" | Container string "block list"

record point =
  path :: "nat list"
  offset :: int

record range =
  anchor :: point
  focus :: point

record editor =
  children :: "block list"
  selection :: "range option"
  marks :: "string set option"

definition Point_equals :: "point \<Rightarrow> point \<Rightarrow> bool" where
  "Point_equals p q = (path p = path q \<and> offset p = offset q)"

definition Range_isCollapsed :: "range \<Rightarrow> bool" where
  "Range_isCollapsed r = Point_equals (anchor r) (focus r)"

subsection \<open>Reading the document\<close>

fun inline_at :: "inline list \<Rightarrow> nat list \<Rightarrow> inline option" where
  "inline_at ns [] = None"
| "inline_at ns [i] = (if i < length ns then Some (ns ! i) else None)"
| "inline_at ns (i # j # p) =
     (if i < length ns
      then (case ns ! i of Link u cs \<Rightarrow> inline_at cs (j # p) | Text s m \<Rightarrow> None)
      else None)"

text \<open>
  \<open>block_above bs p\<close> is the lowest block on the path \<open>p\<close>: its type, its inline
  children, its own path and the rest of \<open>p\<close> below it.
\<close>

fun block_above :: "block list \<Rightarrow> nat list \<Rightarrow> (string \<times> inline list \<times> nat list \<times> nat list) option" where
  "block_above bs [] = None"
| "block_above bs (i # p) =
     (if i < length bs
      then (case bs ! i of
              Block t ns \<Rightarrow> Some (t, ns, [i], p)
            | Container t cs \<Rightarrow>
                (case block_above cs p of
                   None \<Rightarrow> None
                 | Some (t', ns, bp, ip) \<Rightarrow> Some (t', ns, i # bp, ip)))
      else None)"

definition text_at :: "block list \<Rightarrow> nat list \<Rightarrow> (jsstring \<times> string set) option" where
  "text_at bs p =
     (case block_above bs p of
        None \<Rightarrow> None
      | Some (t, ns, bp, ip) \<Rightarrow>
          (case inline_at ns ip of Some (Text s m) \<Rightarrow> Some (s, m) | _ \<Rightarrow> None))"

text \<open>
  Modelled from the spec: nearest-enclosing-block lookup from a Position
  (\<open>Editor.above\<close> with \<open>match: isBlock\<close>). The source calls it when the selection is
  collapsed; \<open>None\<close> is its \<open>undefined\<close>, which in a document of this shape means that
  the selection is not inside a block.
\<close>

definition Editor_above :: "editor \<Rightarrow> (block \<times> nat list) option" where
  "Editor_above e =
     (case selection e of
        None \<Rightarrow> None
      | Some sel \<Rightarrow>
          (case block_above (children e) (path (anchor sel)) of
             None \<Rightarrow> None
           | Some (t, ns, bp, ip) \<Rightarrow> if ip = [] then None else Some (Block t ns, bp)))"

fun type_of :: "block \<Rightarrow> string" where
  "type_of (Block t ns) = t"
| "type_of (Container t bs) = t"

fun first_text :: "inline list \<Rightarrow> nat list option" where
  "first_text [] = None"
| "first_text (Text s m # ns) = Some [0]"
| "first_text (Link u cs # ns) = map_option ((#) 0) (first_text cs)"

fun first_text_blocks :: "block list \<Rightarrow> nat list option" where
  "first_text_blocks [] = None"
| "first_text_blocks (Block t ns # bs) = map_option ((#) 0) (first_text ns)"
| "first_text_blocks (Container t cs # bs) = map_option ((#) 0) (first_text_blocks cs)"

fun start_inline :: "inline list \<Rightarrow> nat list \<Rightarrow> nat list option" where
  "start_inline ns [] = first_text ns"
| "start_inline ns (i # p) =
     (if i < length ns
      then (case ns ! i of
              Text s m \<Rightarrow> if p = [] then Some [i] else None
            | Link u cs \<Rightarrow> map_option ((#) i) (start_inline cs p))
      else None)"

fun start_block :: "block list \<Rightarrow> nat list \<Rightarrow> nat list option" where
  "start_block bs [] = first_text_blocks bs"
| "start_block bs (i # p) =
     (if i < length bs
      then (case bs ! i of
              Block t ns \<Rightarrow> map_option ((#) i) (start_inline ns p)
            | Container t cs \<Rightarrow> map_option ((#) i) (start_block cs p))
      else None)"

text \<open>
  Modelled from the spec: start-Position-of-block (\<open>Editor.start\<close>), the first position
  of the first text run under the node at the path; \<open>None\<close> when the path addresses no
  node.
\<close>

definition Editor_start :: "editor \<Rightarrow> nat list \<Rightarrow> point option" where
  "Editor_start e p = map_option (\<lambda>q. \<lparr>path = q, offset = 0\<rparr>) (start_block (children e) p)"

fun inline_text :: "inline \<Rightarrow> jsstring" where
  "inline_text (Text s m) = s"
| "inline_text (Link u cs) = concat (map inline_text cs)"

definition texts :: "inline list \<Rightarrow> jsstring" where
  "texts ns = concat (map inline_text ns)"

fun text_pos :: "inline list \<Rightarrow> nat list \<Rightarrow> int \<Rightarrow> nat option" where
  "text_pos ns [] off = None"
| "text_pos ns (i # p) off =
     (if i < length ns
      then (case ns ! i of
              Text s m \<Rightarrow>
                if p = [] \<and> 0 \<le> off \<and> off \<le> int (length s)
                then Some (length (texts (take i ns)) + nat off) else None
            | Link u cs \<Rightarrow>
                map_option (\<lambda>n. length (texts (take i ns)) + n) (text_pos cs p off))
      else None)"

text \<open>
  Modelled from the spec: string-extraction over a Range (\<open>Editor.string\<close>), for a range
  whose two positions lie in one block, which is what the source asks for; \<open>None\<close> when
  a position addresses no text or the range leaves the block.
\<close>

definition Editor_string :: "editor \<Rightarrow> range \<Rightarrow> jsstring option" where
  "Editor_string e r =
     (case block_above (children e) (path (anchor r)) of
        None \<Rightarrow> None
      | Some (t, ns, bp, ip) \<Rightarrow>
          (case block_above (children e) (path (focus r)) of
             None \<Rightarrow> None
           | Some (t', ns', bp', ip') \<Rightarrow>
               if bp = bp'
               then (case text_pos ns ip (offset (anchor r)) of
                       None \<Rightarrow> None
                     | Some a \<Rightarrow>
                         (case text_pos ns ip' (offset (focus r)) of
                            None \<Rightarrow> None
                          | Some f \<Rightarrow> Some (take (max a f - min a f) (drop (min a f) (texts ns)))))
               else None))"

subsection \<open>Changing the document\<close>

fun modify_inline :: "nat list \<Rightarrow> (inline \<Rightarrow> inline list) \<Rightarrow> inline list \<Rightarrow> inline list" where
  "modify_inline [] f ns = ns"
| "modify_inline [i] f ns =
     (if i < length ns then take i ns @ f (ns ! i) @ drop (Suc i) ns else ns)"
| "modify_inline (i # j # p) f ns =
     (if i < length ns
      then (case ns ! i of
              Link u cs \<Rightarrow> ns[i := Link u (modify_inline (j # p) f cs)]
            | Text s m \<Rightarrow> ns)
      else ns)"

fun modify_block :: "nat list \<Rightarrow> (block \<Rightarrow> block) \<Rightarrow> block list \<Rightarrow> block list" where
  "modify_block [] f bs = bs"
| "modify_block [i] f bs = (if i < length bs then bs[i := f (bs ! i)] else bs)"
| "modify_block (i # j # p) f bs =
     (if i < length bs
      then (case bs ! i of
              Container t cs \<Rightarrow> bs[i := Container t (modify_block (j # p) f cs)]
            | Block t ns \<Rightarrow> bs)
      else bs)"

definition replace_text :: "nat list \<Rightarrow> inline list \<Rightarrow> block list \<Rightarrow> block list" where
  "replace_text p new bs =
     (case block_above bs p of
        None \<Rightarrow> bs
      | Some (t, ns, bp, ip) \<Rightarrow>
          modify_block bp (\<lambda>b. Block t (modify_inline ip (\<lambda>n. new) ns)) bs)"

definition map_range :: "(point \<Rightarrow> point) \<Rightarrow> range \<Rightarrow> range" where
  "map_range f r = \<lparr>anchor = f (anchor r), focus = f (focus r)\<rparr>"

definition Transforms_select :: "range \<Rightarrow> editor \<Rightarrow> editor" where
  "Transforms_select r e = e\<lparr>selection := Some r\<rparr>"

definition remove_text_point :: "nat list \<Rightarrow> int \<Rightarrow> int \<Rightarrow> point \<Rightarrow> point" where
  "remove_text_point p a b pt =
     (if path pt = p \<and> a \<le> offset pt
      then pt\<lparr>offset := offset pt - min (offset pt - a) (b - a)\<rparr>
      else pt)"

text \<open>
  Modelled from the spec: delete(Range) (\<open>Transforms.delete\<close>; the range is the option
  \<open>at\<close>, or the selection without it). The range must be a non-empty span of one text
  run; the selection follows the removed text. \<open>None\<close> stands for a request that the
  host cannot satisfy (a position outside the text) or that this model does not cover
  (a range that spans several runs, or a collapsed one).
\<close>

definition Transforms_delete :: "range option \<Rightarrow> editor \<Rightarrow> editor option" where
  "Transforms_delete at e =
     (case (case at of Some r \<Rightarrow> Some r | None \<Rightarrow> selection e) of
        None \<Rightarrow> Some e
      | Some r \<Rightarrow>
          (let p = path (anchor r);
               a = min (offset (anchor r)) (offset (focus r));
               b = max (offset (anchor r)) (offset (focus r))
           in if path (focus r) = p \<and> a < b
              then (case text_at (children e) p of
                      None \<Rightarrow> None
                    | Some (s, m) \<Rightarrow>
                        if 0 \<le> a \<and> b \<le> int (length s)
                        then Some (e\<lparr>children :=
                                       replace_text p [Text (take (nat a) s @ drop (nat b) s) m]
                                         (children e),
                                     selection :=
                                       map_option (map_range (remove_text_point p a b))
                                         (selection e)\<rparr>)
                        else None)
              else None))"

fun retype :: "string \<Rightarrow> block \<Rightarrow> block" where
  "retype t (Block t' ns) = Block t ns"
| "retype t (Container t' bs) = Container t bs"

text \<open>
  Modelled from the spec: setBlockType(Block, Type) (\<open>Transforms.setNodes\<close> with a new
  \<open>type\<close>, on the lowest block at the selection); the selection lies in one block.
\<close>

definition Transforms_setNodes_type :: "string \<Rightarrow> editor \<Rightarrow> editor option" where
  "Transforms_setNodes_type t e =
     (case selection e of
        None \<Rightarrow> Some e
      | Some sel \<Rightarrow>
          (case block_above (children e) (path (anchor sel)) of
             None \<Rightarrow> None
           | Some (t1, ns1, bp, ip) \<Rightarrow>
               (case block_above (children e) (path (focus sel)) of
                  None \<Rightarrow> None
                | Some (t2, ns2, bp', ip') \<Rightarrow>
                    if bp = bp'
                    then Some (e\<lparr>children := modify_block bp (retype t) (children e)\<rparr>)
                    else None)))"

fun lowest_match :: "(string \<Rightarrow> bool) \<Rightarrow> block list \<Rightarrow> nat list \<Rightarrow> nat list option" where
  "lowest_match P bs [] = None"
| "lowest_match P bs (i # p) =
     (if i < length bs
      then (case bs ! i of
              Block t ns \<Rightarrow> if P t then Some [i] else None
            | Container t cs \<Rightarrow>
                (case lowest_match P cs p of
                   Some q \<Rightarrow> Some (i # q)
                 | None \<Rightarrow> if P t then Some [i] else None))
      else None)"

definition wrap_point :: "nat list \<Rightarrow> point \<Rightarrow> point" where
  "wrap_point q pt =
     (if take (length q) (path pt) = q
      then pt\<lparr>path := q @ 0 # drop (length q) (path pt)\<rparr>
      else pt)"

text \<open>
  Modelled from the spec: wrapInNewContainer(Block, ContainerType) (\<open>Transforms.wrapNodes\<close>
  with \<open>match: n.type === 'list-item'\<close>): the lowest block of type list-item at the
  selection becomes the only child of a new container; without such a block nothing
  changes.
\<close>

definition Transforms_wrapNodes_list :: "string \<Rightarrow> editor \<Rightarrow> editor option" where
  "Transforms_wrapNodes_list lt e =
     (case selection e of
        None \<Rightarrow> Some e
      | Some sel \<Rightarrow>
          if path (anchor sel) = path (focus sel)
          then (case lowest_match (\<lambda>t. t = ''list-item'') (children e) (path (anchor sel)) of
                  None \<Rightarrow> Some e
                | Some q \<Rightarrow>
                    Some (e\<lparr>children := modify_block q (\<lambda>b. Container lt [b]) (children e),
                            selection := Some (map_range (wrap_point q) sel)\<rparr>))
          else None)"

definition split_runs :: "jsstring \<Rightarrow> string set \<Rightarrow> nat \<Rightarrow> nat \<Rightarrow> inline \<Rightarrow> inline list" where
  "split_runs s m lo hi mid =
     (if 0 < lo then [Text (take lo s) m] else []) @ [mid]
     @ (if hi < length s then [Text (drop hi s) m] else [])"

definition split_point :: "nat list \<Rightarrow> nat \<Rightarrow> nat \<Rightarrow> nat \<Rightarrow> nat list \<Rightarrow> point \<Rightarrow> point" where
  "split_point p len lo hi inner pt =
     (let parent = butlast p; i = last p; d = length parent; q = path pt; c = offset pt;
          left = (if 0 < lo then 1 else 0 :: nat);
          right = (if hi < len then 1 else 0 :: nat)
      in if q = p
         then (if hi < len \<and> int hi \<le> c
               then pt\<lparr>path := parent @ [i + left + 1], offset := c - int hi\<rparr>
               else if int lo \<le> c
               then pt\<lparr>path := parent @ [i + left] @ inner, offset := c - int lo\<rparr>
               else pt)
         else if d < length q \<and> take d q = parent \<and> i < q ! d
         then pt\<lparr>path := parent @ [q ! d + left + right] @ drop (Suc d) q\<rparr>
         else pt)"

text \<open>
  Modelled from the spec: applyMark(Range, MarkName) with run-splitting
  (\<open>Transforms.setNodes\<close> with \<open>{[key]: true}\<close>, \<open>match: Text.isText\<close> and
  \<open>split: true\<close>), for a non-empty range in one text run: the run is split at the two
  ends of the range where they are not its own ends, and the middle run gets the key.
  Marks are booleans, so a run that has the key already stays as it is.
\<close>

definition Transforms_setNodes_mark :: "string \<Rightarrow> range \<Rightarrow> editor \<Rightarrow> editor option" where
  "Transforms_setNodes_mark key r e =
     (let p = path (anchor r);
          a = min (offset (anchor r)) (offset (focus r));
          b = max (offset (anchor r)) (offset (focus r))
      in if path (focus r) = p \<and> a < b
         then (case text_at (children e) p of
                 None \<Rightarrow> None
               | Some (s, m) \<Rightarrow>
                   if 0 \<le> a \<and> b \<le> int (length s)
                   then (if key \<in> m then Some e
                         else Some (e\<lparr>children :=
                                 replace_text p
                                   (split_runs s m (nat a) (nat b)
                                      (Text (take (nat b - nat a) (drop (nat a) s)) (insert key m)))
                                   (children e),
                               selection :=
                                 map_option (map_range (split_point p (length s) (nat a) (nat b) []))
                                   (selection e)\<rparr>))
                   else None)
         else None)"

text \<open>
  Modelled from the spec: wrapping a range in a Link node (\<open>Transforms.wrapNodes\<close> with
  \<open>split: true\<close>), for a non-empty range in one text run: the run is split as above and
  the middle run becomes the only child of the new link.
\<close>

definition Transforms_wrapNodes_link :: "jsstring \<Rightarrow> range \<Rightarrow> editor \<Rightarrow> editor option" where
  "Transforms_wrapNodes_link u r e =
     (let p = path (anchor r);
          a = min (offset (anchor r)) (offset (focus r));
          b = max (offset (anchor r)) (offset (focus r))
      in if path (focus r) = p \<and> a < b
         then (case text_at (children e) p of
                 None \<Rightarrow> None
               | Some (s, m) \<Rightarrow>
                   if 0 \<le> a \<and> b \<le> int (length s)
                   then Some (e\<lparr>children :=
                                 replace_text p
                                   (split_runs s m (nat a) (nat b)
                                      (Link u [Text (take (nat b - nat a) (drop (nat a) s)) m]))
                                   (children e),
                               selection :=
                                 map_option (map_range (split_point p (length s) (nat a) (nat b) [0]))
                                   (selection e)\<rparr>)
                   else None)
         else None)"

text \<open>
  Modelled from the spec: clearPendingMark() (\<open>Editor.removeMark\<close> at a collapsed
  selection): the pending marks become those at the caret without the key.
\<close>

definition Editor_removeMark :: "string \<Rightarrow> editor \<Rightarrow> editor option" where
  "Editor_removeMark key e =
     (case selection e of
        None \<Rightarrow> Some e
      | Some sel \<Rightarrow>
          if Range_isCollapsed sel
          then Some (e\<lparr>marks :=
                 Some ((case marks e of
                          Some ms \<Rightarrow> ms
                        | None \<Rightarrow>
                            (case text_at (children e) (path (anchor sel)) of
                               Some (s, m) \<Rightarrow> m
                             | None \<Rightarrow> {})) - {key})\<rparr>)
          else None)"

text \<open>
  Modelled from the spec: insertText(char), the default passthrough of the host. The text
  replaces the selection, which lies in one text run, and the caret ends after it; with
  pending marks that differ from the marks of the run, the text becomes a run of its own.
\<close>

definition Editor_insertText :: "jsstring \<Rightarrow> editor \<Rightarrow> editor option" where
  "Editor_insertText txt e =
     (case selection e of
        None \<Rightarrow> Some e
      | Some sel \<Rightarrow>
          (let p = path (anchor sel);
               a = min (offset (anchor sel)) (offset (focus sel));
               b = max (offset (anchor sel)) (offset (focus sel))
           in if path (focus sel) = p
              then (case text_at (children e) p of
                      None \<Rightarrow> None
                    | Some (s, m) \<Rightarrow>
                        if 0 \<le> a \<and> b \<le> int (length s)
                        then (case marks e of
                                None \<Rightarrow>
                                  Some (e\<lparr>children :=
                                      replace_text p [Text (take (nat a) s @ txt @ drop (nat b) s) m]
                                        (children e),
                                    selection :=
                                      (let c = \<lparr>path = p, offset = a + int (length txt)\<rparr>
                                       in Some \<lparr>anchor = c, focus = c\<rparr>)\<rparr>)
                              | Some ms \<Rightarrow>
                                  if a = b
                                  then Some (e\<lparr>children :=
                                      replace_text p (split_runs s m (nat a) (nat a) (Text txt ms))
                                        (children e),
                                    selection :=
                                      (let c = \<lparr>path = butlast p @ [last p + (if 0 < a then 1 else 0)],
                                                offset = int (length txt)\<rparr>
                                       in Some \<lparr>anchor = c, focus = c\<rparr>),
                                    marks := None\<rparr>)
                                  else None)
                        else None)
              else None))"

section \<open>The plugin\<close>

text \<open>
  \<open>withAutoMarkdown\<close> replaces the two handlers \<open>insertText\<close> and \<open>deleteBackward\<close> of the
  editor and keeps the handlers it found; here the kept handlers are the first argument of
  the new ones. A result \<open>None\<close> is a request that the host cannot satisfy.
\<close>

definition deleteText :: "editor \<Rightarrow> nat list \<Rightarrow> int \<Rightarrow> int \<Rightarrow> editor option" where
  "deleteText e p off len =
     (let anchorOffset = off - len
      in if anchorOffset = off then Some e
         else Transforms_delete
                (Some \<lparr>anchor = \<lparr>path = p, offset = anchorOffset\<rparr>,
                       focus = \<lparr>path = p, offset = off\<rparr>\<rparr>) e)"

fun find_block_shortcut :: "jsstring \<Rightarrow> block_shortcut list \<Rightarrow> block_shortcut option" where
  "find_block_shortcut beforeText [] = None"
| "find_block_shortcut beforeText (shortcut # rest) =
     (if js_match beforeText (bmatch shortcut) \<noteq> None then Some shortcut
      else find_block_shortcut beforeText rest)"

definition block_shortcut_body :: "block_shortcut \<Rightarrow> range \<Rightarrow> editor \<Rightarrow> editor option" where
  "block_shortcut_body shortcut beforeRange e =
     do {
       e1 \<leftarrow> Transforms_delete None (Transforms_select beforeRange e);
       e2 \<leftarrow> Transforms_setNodes_type (btype shortcut) e1;
       if btype shortcut = ''list-item''
       then (case listType shortcut of
               Some lt \<Rightarrow> Transforms_wrapNodes_list lt e2
             | None \<Rightarrow> None)
       else Some e2
     }"

text \<open>
  The part of \<open>insertText\<close> for a space: \<open>None\<close> when no block shortcut matches and the
  handler goes on to the inline shortcuts, \<open>Some r\<close> when it returns with \<open>r\<close>.
\<close>

definition block_shortcuts :: "editor \<Rightarrow> point \<Rightarrow> editor option option" where
  "block_shortcuts e anc =
     (let block = Editor_above e;
          p = (case block of Some (b, bp) \<Rightarrow> bp | None \<Rightarrow> [])
      in case Editor_start e p of
           None \<Rightarrow> Some None
         | Some lineStart \<Rightarrow>
             (let beforeRange = \<lparr>anchor = anc, focus = lineStart\<rparr>
              in case Editor_string e beforeRange of
                   None \<Rightarrow> Some None
                 | Some beforeText \<Rightarrow>
                     (case find_block_shortcut beforeText BLOCK_SHORTCUTS of
                        None \<Rightarrow> None
                      | Some shortcut \<Rightarrow> Some (block_shortcut_body shortcut beforeRange e))))"

definition format_emphasis :: "string \<Rightarrow> jsstring list \<Rightarrow> point \<Rightarrow> editor \<Rightarrow> editor option" where
  "format_emphasis type result anc e =
     (case result of
        startMark # textToFormat # endMark # rest \<Rightarrow>
          (let selectionPath = path anc;
               endOfSelection = offset anc;
               endMarkLength = int (length endMark) - 1
           in do {
                e1 \<leftarrow> deleteText e selectionPath endOfSelection endMarkLength;
                let endOfSelection = endOfSelection - endMarkLength;
                e2 \<leftarrow> deleteText e1 selectionPath (endOfSelection - int (length textToFormat))
                        (int (length startMark));
                let endOfSelection = endOfSelection - int (length startMark);
                let textToFormatRange =
                      \<lparr>anchor = \<lparr>path = selectionPath, offset = endOfSelection\<rparr>,
                       focus = \<lparr>path = selectionPath,
                                offset = endOfSelection - int (length textToFormat)\<rparr>\<rparr>;
                e3 \<leftarrow> Transforms_setNodes_mark type textToFormatRange e2;
                Editor_removeMark type e3
              })
      | _ \<Rightarrow> None)"

definition format_link :: "jsstring list \<Rightarrow> point \<Rightarrow> editor \<Rightarrow> editor option" where
  "format_link result anc e =
     (case result of
        startMark # linkText # middleMark # linkUrl # endMark # rest \<Rightarrow>
          (let selectionPath = path anc;
               endOfSelection = offset anc;
               endMarkLength = int (length endMark) - 1;
               endLength = int (length middleMark) + int (length linkUrl) + endMarkLength
           in do {
                e1 \<leftarrow> deleteText e selectionPath endOfSelection endLength;
                let endOfSelection = endOfSelection - endLength;
                e2 \<leftarrow> deleteText e1 selectionPath (endOfSelection - int (length linkText))
                        (int (length startMark));
                let endOfSelection = endOfSelection - int (length startMark);
                let linkTextRange =
                      \<lparr>anchor = \<lparr>path = selectionPath, offset = endOfSelection\<rparr>,
                       focus = \<lparr>path = selectionPath,
                                offset = endOfSelection - int (length linkText)\<rparr>\<rparr>;
                Transforms_wrapNodes_link linkUrl linkTextRange e2
              })
      | _ \<Rightarrow> None)"

text \<open>
  The loop over \<open>INLINE_SHORTCUTS\<close>: the first entry whose pattern matches the text and
  whose type is one that the loop body handles, with the groups of the match. The body
  returns in both branches, so no later entry is tried after it.
\<close>

fun first_inline_match :: "jsstring \<Rightarrow> inline_shortcut list \<Rightarrow> (string \<times> jsstring list) option" where
  "first_inline_match elementText [] = None"
| "first_inline_match elementText (shortcut # rest) =
     (case js_match elementText (imatch shortcut) of
        None \<Rightarrow> first_inline_match elementText rest
      | Some result \<Rightarrow>
          if itype shortcut = ''bold'' \<or> itype shortcut = ''italic'' \<or> itype shortcut = ''code''
             \<or> itype shortcut = ''link''
          then Some (itype shortcut, result)
          else first_inline_match elementText rest)"

definition inline_shortcuts :: "(jsstring \<Rightarrow> editor \<Rightarrow> editor option) \<Rightarrow> jsstring \<Rightarrow> editor \<Rightarrow> point \<Rightarrow>
    jsstring \<Rightarrow> editor option" where
  "inline_shortcuts insertText0 txt e anc elementText =
     (case first_inline_match elementText INLINE_SHORTCUTS of
        None \<Rightarrow> insertText0 txt e
      | Some (type, result) \<Rightarrow>
          if type = ''bold'' \<or> type = ''italic'' \<or> type = ''code''
          then format_emphasis type result anc e
          else format_link result anc e)"

definition insertText :: "(jsstring \<Rightarrow> editor \<Rightarrow> editor option) \<Rightarrow> jsstring \<Rightarrow> editor \<Rightarrow> editor option" where
  "insertText insertText0 txt e =
     (case selection e of
        None \<Rightarrow> insertText0 txt e
      | Some sel \<Rightarrow>
          if \<not> Range_isCollapsed sel then insertText0 txt e
          else
            (let anc = anchor sel
             in case (if txt = js '' '' then block_shortcuts e anc else None) of
                  Some r \<Rightarrow> r
                | None \<Rightarrow>
                    (case Editor_start e (path anc) of
                       None \<Rightarrow> None
                     | Some elementStart \<Rightarrow>
                         (case Editor_string e \<lparr>anchor = anc, focus = elementStart\<rparr> of
                            None \<Rightarrow> None
                          | Some str \<Rightarrow>
                              inline_shortcuts insertText0 txt e anc (str @ txt)))))"

definition deleteBackward :: "('a \<Rightarrow> editor \<Rightarrow> editor option) \<Rightarrow> 'a \<Rightarrow> editor \<Rightarrow> editor option" where
  "deleteBackward deleteBackward0 args e =
     (case selection e of
        None \<Rightarrow> Some e
      | Some sel \<Rightarrow>
          if Range_isCollapsed sel
          then (case Editor_above e of
                  Some (block, p) \<Rightarrow>
                    (case Editor_start e p of
                       None \<Rightarrow> None
                     | Some start \<Rightarrow>
                         if type_of block \<noteq> ''paragraph'' \<and> type_of block \<noteq> ''list-item''
                            \<and> Point_equals (anchor sel) start
                         then Transforms_setNodes_type ''paragraph'' e
                         else deleteBackward0 args e)
                | None \<Rightarrow> deleteBackward0 args e)
          else Some e)"

text \<open>
  The condition under which \<open>deleteBackward\<close> turns the block into a paragraph: the caret
  is at the start of the enclosing block, whose type is neither paragraph nor list-item.
\<close>

definition outdent_condition :: "editor \<Rightarrow> bool" where
  "outdent_condition e =
     (case selection e of
        None \<Rightarrow> False
      | Some sel \<Rightarrow>
          Range_isCollapsed sel \<and>
          (case Editor_above e of
             None \<Rightarrow> False
           | Some (block, p) \<Rightarrow>
               type_of block \<noteq> ''paragraph'' \<and> type_of block \<noteq> ''list-item''
               \<and> (case Editor_start e p of
                     None \<Rightarrow> False
                   | Some start \<Rightarrow> Point_equals (anchor sel) start)))"

text \<open>Typing a text one key at a time into an editor with the host's own \<open>insertText\<close>.\<close>

fun type_keys :: "jsstring \<Rightarrow> editor \<Rightarrow> editor option" where
  "type_keys [] e = Some e"
| "type_keys (c # cs) e =
     (case insertText Editor_insertText [c] e of
        None \<Rightarrow> None
      | Some e' \<Rightarrow> type_keys cs e')"

section \<open>Observing documents\<close>

text \<open>The text of every block that holds inline nodes, in document order.\<close>

fun block_texts :: "block \<Rightarrow> jsstring list" where
  "block_texts (Block t ns) = [texts ns]"
| "block_texts (Container t bs) = concat (map block_texts bs)"

definition doc_texts :: "block list \<Rightarrow> jsstring list" where
  "doc_texts bs = concat (map block_texts bs)"

text \<open>A collapsed selection, and an editor whose document is one block.\<close>

definition caret :: "nat list \<Rightarrow> int \<Rightarrow> range" where
  "caret p n = \<lparr>anchor = \<lparr>path = p, offset = n\<rparr>, focus = \<lparr>path = p, offset = n\<rparr>\<rparr>"

definition one_block :: "string \<Rightarrow> inline list \<Rightarrow> range option \<Rightarrow> editor" where
  "one_block t ns sel = \<lparr>children = [Block t ns], selection = sel, marks = None\<rparr>"

text \<open>
  A \<open>deleteBackward\<close> handler that an editor may carry when the plugin wraps it: one that
  removes the selected text.
\<close>

definition delete_selected :: "unit \<Rightarrow> editor \<Rightarrow> editor option" where
  "delete_selected u e = Transforms_delete None e"

section \<open>Lemmas on the document\<close>

lemmas engine_defs =
  js_def cu_def INLINE_SHORTCUTS_def BLOCK_SHORTCUTS_def js_match_def match_here_def lit_def
  insertText_def inline_shortcuts_def block_shortcuts_def format_emphasis_def format_link_def
  deleteText_def block_shortcut_body_def Editor_insertText_def Editor_removeMark_def
  Transforms_wrapNodes_link_def Transforms_setNodes_mark_def Transforms_wrapNodes_list_def
  Transforms_setNodes_type_def Transforms_delete_def Transforms_select_def
  Editor_string_def Editor_start_def Editor_above_def text_at_def replace_text_def
  split_runs_def split_point_def map_range_def remove_text_point_def wrap_point_def
  Range_isCollapsed_def Point_equals_def texts_def caret_def one_block_def

lemma block_above_path_nonempty: "block_above bs p = Some (t, ns, bp, ip) \<Longrightarrow> bp \<noteq> []"
  by (induction bs p arbitrary: t ns bp ip rule: block_above.induct)
     (auto split: if_splits block.splits option.splits)

lemma block_above_modify_block:
  "block_above bs p = Some (t, ns, bp, ip) \<Longrightarrow> f (Block t ns) = Block t' ns' \<Longrightarrow>
   block_above (modify_block bp f bs) p = Some (t', ns', bp, ip)"
proof (induction bs p arbitrary: bp rule: block_above.induct)
  case (1 bs)
  then show ?case by simp
next
  case (2 bs i p)
  from "2.prems"(1) have i: "i < length bs" by (simp split: if_splits)
  show ?case
  proof (cases "bs ! i")
    case (Block t0 ns0)
    with "2.prems" i show ?thesis by auto
  next
    case (Container t0 cs)
    with "2.prems"(1) i obtain bp' where a: "block_above cs p = Some (t, ns, bp', ip)" and bp: "bp = i # bp'"
      by (auto split: option.splits)
    from a have "bp' \<noteq> []" by (rule block_above_path_nonempty)
    then obtain j q where bp': "bp' = j # q" by (cases bp') auto
    from "2.IH"[OF i Container a "2.prems"(2)] show ?thesis
      using i Container bp bp' by simp
  qed
qed

lemma doc_texts_modify_block:
  "(\<And>b. block_texts (f b) = block_texts b) \<Longrightarrow> doc_texts (modify_block bp f bs) = doc_texts bs"
proof (induction bp f bs rule: modify_block.induct)
  case (1 f bs)
  then show ?case by simp
next
  case (2 i f bs)
  show ?case
  proof (cases "i < length bs")
    case True
    then have "map block_texts (bs[i := f (bs ! i)]) = map block_texts bs"
      using 2 by (simp add: map_update list_update_same_conv)
    with True show ?thesis by (simp add: doc_texts_def)
  qed simp
next
  case (3 i j p f bs)
  show ?case
  proof (cases "i < length bs")
    case True
    show ?thesis
    proof (cases "bs ! i")
      case (Block t ns)
      with True show ?thesis by simp
    next
      case (Container t cs)
      from "3.IH"[OF True Container "3.prems"]
      have "block_texts (Container t (modify_block (j # p) f cs)) = block_texts (bs ! i)"
        using Container by (simp add: doc_texts_def)
      then have "map block_texts (bs[i := Container t (modify_block (j # p) f cs)]) = map block_texts bs"
        using True by (simp add: map_update list_update_same_conv)
      with True Container show ?thesis by (simp add: doc_texts_def)
    qed
  qed simp
qed

lemma block_texts_retype: "block_texts (retype t b) = block_texts b"
  by (cases b) simp_all

section \<open>The claims\<close>

text \<open>
  C2. The claim: whenever an inline rule matches on the insertion of one character, the
  matched closing delimiter ends at the caret, so that deleting the length of the closing
  delimiter minus one before the caret removes the committed part of that delimiter and
  nothing else. The patterns are not anchored at the end of the text, so this fails: the
  keys \<open>`*a* b`\<close> typed into an empty paragraph give a code run \<open>*a* b\<close> with the caret
  after it; on the next key \<open>c\<close> the italic rule matches \<open>*a*\<close> at the start of the run,
  far from the caret, and the handler removes the space before \<open>b\<close> instead of the
  opening \<open>*\<close>, marks \<open>b\<close> and drops the \<open>c\<close>.
\<close>

theorem inline_match_away_from_caret:
  "first_inline_match (js ''*a* bc'') INLINE_SHORTCUTS = Some (''italic'', [js ''*'', js ''a'', js ''*''])
   \<and> type_keys (js ''`*a* b`'') (one_block ''paragraph'' [Text [] {}] (Some (caret [0, 0] 0)))
       = Some \<lparr>children = [Block ''paragraph'' [Text (js ''*a* b'') {''code''}]],
              selection = Some (caret [0, 0] 5), marks = Some {}\<rparr>
   \<and> type_keys (js ''`*a* b`c'') (one_block ''paragraph'' [Text [] {}] (Some (caret [0, 0] 0)))
       = Some \<lparr>children = [Block ''paragraph''
                 [Text (js ''*a*'') {''code''}, Text (js ''b'') {''italic'', ''code''}]],
              selection = Some (caret [0, 1] 1), marks = Some {}\<rparr>"
  by (simp add: engine_defs Let_def)

text \<open>
  C3, as amended. With a collapsed selection, when the outdent condition does not hold
  and the host can tell the start of the enclosing block, \<open>deleteBackward\<close> is the kept
  handler; with no selection or a selection that is not collapsed it leaves the editor as
  it is and does not call the kept handler.
\<close>

theorem deleteBackward_default:
  "(selection e = Some sel \<and> Range_isCollapsed sel \<and> \<not> outdent_condition e
      \<and> (\<forall>block p. Editor_above e = Some (block, p) \<longrightarrow> Editor_start e p \<noteq> None)
     \<longrightarrow> deleteBackward deleteBackward0 args e = deleteBackward0 args e)
   \<and> (selection e = None \<or> (selection e = Some sel \<and> \<not> Range_isCollapsed sel)
     \<longrightarrow> deleteBackward deleteBackward0 args e = Some e)"
  by (auto simp: deleteBackward_def outdent_condition_def split: option.splits)

theorem deleteBackward_default_witness:
  "selection (one_block ''paragraph'' [Text (js ''ab'') {}] (Some (caret [0, 0] 2))) = Some (caret [0, 0] 2)
   \<and> Range_isCollapsed (caret [0, 0] 2)
   \<and> \<not> outdent_condition (one_block ''paragraph'' [Text (js ''ab'') {}] (Some (caret [0, 0] 2)))
   \<and> Editor_above (one_block ''paragraph'' [Text (js ''ab'') {}] (Some (caret [0, 0] 2)))
       = Some (Block ''paragraph'' [Text (js ''ab'') {}], [0])
   \<and> Editor_start (one_block ''paragraph'' [Text (js ''ab'') {}] (Some (caret [0, 0] 2))) [0]
       = Some \<lparr>path = [0, 0], offset = 0\<rparr>
   \<and> deleteBackward delete_selected () (one_block ''paragraph'' [Text (js ''ab'') {}] (Some (caret [0, 0] 2)))
       = delete_selected () (one_block ''paragraph'' [Text (js ''ab'') {}] (Some (caret [0, 0] 2)))
   \<and> selection (one_block ''paragraph'' [Text (js ''ab'') {}] None) = None
   \<and> deleteBackward delete_selected () (one_block ''paragraph'' [Text (js ''ab'') {}] None)
       = Some (one_block ''paragraph'' [Text (js ''ab'') {}] None)"
  using deleteBackward_default
    [of "one_block ''paragraph'' [Text (js ''ab'') {}] (Some (caret [0, 0] 2))" "caret [0, 0] 2"
        delete_selected "()"]
    deleteBackward_default
    [of "one_block ''paragraph'' [Text (js ''ab'') {}] None" "caret [0, 0] 2" delete_selected "()"]
  by (simp add: outdent_condition_def engine_defs Let_def)

text \<open>
  C3 as stated fails: with the text \<open>ab\<close> selected, a kept handler that removes the
  selected text would empty the paragraph, but \<open>deleteBackward\<close> does not call it and
  leaves the editor as it is, although the outdent condition does not hold.
\<close>

theorem deleteBackward_default_counterexample:
  "\<not> outdent_condition
       (one_block ''paragraph'' [Text (js ''ab'') {}]
          (Some \<lparr>anchor = \<lparr>path = [0, 0], offset = 0\<rparr>, focus = \<lparr>path = [0, 0], offset = 2\<rparr>\<rparr>))
   \<and> delete_selected ()
       (one_block ''paragraph'' [Text (js ''ab'') {}]
          (Some \<lparr>anchor = \<lparr>path = [0, 0], offset = 0\<rparr>, focus = \<lparr>path = [0, 0], offset = 2\<rparr>\<rparr>))
     = Some (one_block ''paragraph'' [Text [] {}] (Some (caret [0, 0] 0)))
   \<and> deleteBackward delete_selected ()
       (one_block ''paragraph'' [Text (js ''ab'') {}]
          (Some \<lparr>anchor = \<lparr>path = [0, 0], offset = 0\<rparr>, focus = \<lparr>path = [0, 0], offset = 2\<rparr>\<rparr>))
     = Some (one_block ''paragraph'' [Text (js ''ab'') {}]
          (Some \<lparr>anchor = \<lparr>path = [0, 0], offset = 0\<rparr>, focus = \<lparr>path = [0, 0], offset = 2\<rparr>\<rparr>))"
  by (simp add: deleteBackward_def delete_selected_def outdent_condition_def engine_defs Let_def)

text \<open>
  C4. On a backward deletion with a collapsed selection whose caret is the start of the
  enclosing block, when the type of the block is neither paragraph nor list-item, the
  handler sets the type of that block to paragraph and returns: the kept handler is not
  called, the block keeps its inline nodes, and the texts of the blocks of the document
  are the same as before (no character is deleted and no two blocks are merged).
\<close>

theorem deleteBackward_outdent:
  assumes "selection e = Some sel" and "Range_isCollapsed sel"
    and "Editor_above e = Some (block, p)"
    and "Editor_start e p = Some start" and "Point_equals (anchor sel) start"
    and "type_of block \<noteq> ''paragraph''" and "type_of block \<noteq> ''list-item''"
  shows "\<exists>ns ip. block = Block (type_of block) ns
           \<and> deleteBackward deleteBackward0 args e
               = Some (e\<lparr>children := modify_block p (retype ''paragraph'') (children e)\<rparr>)
           \<and> block_above (modify_block p (retype ''paragraph'') (children e)) (path (anchor sel))
               = Some (''paragraph'', ns, p, ip)
           \<and> doc_texts (modify_block p (retype ''paragraph'') (children e)) = doc_texts (children e)"
proof -
  from assms(1,3) obtain t ns ip where
    a: "block_above (children e) (path (anchor sel)) = Some (t, ns, p, ip)" and b: "block = Block t ns"
    by (auto simp: Editor_above_def split: option.splits if_splits)
  from assms(2) have f: "path (focus sel) = path (anchor sel)"
    by (simp add: Range_isCollapsed_def Point_equals_def)
  have "deleteBackward deleteBackward0 args e = Transforms_setNodes_type ''paragraph'' e"
    using assms by (simp add: deleteBackward_def)
  also have "\<dots> = Some (e\<lparr>children := modify_block p (retype ''paragraph'') (children e)\<rparr>)"
    using assms(1) a f by (simp add: Transforms_setNodes_type_def)
  finally show ?thesis
    using b block_above_modify_block[OF a, of "retype ''paragraph''" "''paragraph''" ns]
      doc_texts_modify_block[of "retype ''paragraph''", OF block_texts_retype]
    by simp
qed

theorem deleteBackward_outdent_witness:
  "selection (one_block ''heading-one'' [Text (js ''ab'') {}] (Some (caret [0, 0] 0))) = Some (caret [0, 0] 0)
   \<and> Range_isCollapsed (caret [0, 0] 0)
   \<and> Editor_above (one_block ''heading-one'' [Text (js ''ab'') {}] (Some (caret [0, 0] 0)))
       = Some (Block ''heading-one'' [Text (js ''ab'') {}], [0])
   \<and> Editor_start (one_block ''heading-one'' [Text (js ''ab'') {}] (Some (caret [0, 0] 0))) [0]
       = Some \<lparr>path = [0, 0], offset = 0\<rparr>
   \<and> Point_equals (anchor (caret [0, 0] 0)) \<lparr>path = [0, 0], offset = 0\<rparr>
   \<and> deleteBackward delete_selected () (one_block ''heading-one'' [Text (js ''ab'') {}] (Some (caret [0, 0] 0)))
       = Some (one_block ''paragraph'' [Text (js ''ab'') {}] (Some (caret [0, 0] 0)))"
  using deleteBackward_outdent
    [of "one_block ''heading-one'' [Text (js ''ab'') {}] (Some (caret [0, 0] 0))" "caret [0, 0] 0"
        "Block ''heading-one'' [Text (js ''ab'') {}]" "[0]" "\<lparr>path = [0, 0], offset = 0\<rparr>"
        delete_selected "()"]
  by (simp add: engine_defs)

text \<open>
  C9. When backward deletion is invoked with no selection or with a selection that is not
  collapsed, the handler returns the editor as it is, whatever the kept handler would do:
  it is not called.
\<close>

theorem deleteBackward_without_caret:
  "(case selection e of None \<Rightarrow> True | Some sel \<Rightarrow> \<not> Range_isCollapsed sel) \<Longrightarrow>
   deleteBackward deleteBackward0 args e = Some e"
  by (cases "selection e") (simp_all add: deleteBackward_def)

theorem deleteBackward_without_caret_witness:
  "\<not> Range_isCollapsed \<lparr>anchor = \<lparr>path = [0, 0], offset = 0\<rparr>, focus = \<lparr>path = [0, 0], offset = 2\<rparr>\<rparr>
   \<and> deleteBackward delete_selected ()
       (one_block ''heading-one'' [Text (js ''ab'') {}]
          (Some \<lparr>anchor = \<lparr>path = [0, 0], offset = 0\<rparr>, focus = \<lparr>path = [0, 0], offset = 2\<rparr>\<rparr>))
     = Some (one_block ''heading-one'' [Text (js ''ab'') {}]
          (Some \<lparr>anchor = \<lparr>path = [0, 0], offset = 0\<rparr>, focus = \<lparr>path = [0, 0], offset = 2\<rparr>\<rparr>))
   \<and> deleteBackward delete_selected () (one_block ''heading-one'' [Text (js ''ab'') {}] None)
     = Some (one_block ''heading-one'' [Text (js ''ab'') {}] None)"
  using deleteBackward_without_caret
    [of "one_block ''heading-one'' [Text (js ''ab'') {}]
          (Some \<lparr>anchor = \<lparr>path = [0, 0], offset = 0\<rparr>, focus = \<lparr>path = [0, 0], offset = 2\<rparr>\<rparr>)"
        delete_selected "()"]
    deleteBackward_without_caret
    [of "one_block ''heading-one'' [Text (js ''ab'') {}] None" delete_selected "()"]
  by (simp add: engine_defs)

end
